theory Spec2Isabelle
  imports Complex_Main "HOL-Library.Word"
begin

section \<open>The binary edge store (core/graph.py)\<close>

text \<open>
  \<^verbatim>\<open>Field._format_map\<close> admits exactly eight dtype names; \<^verbatim>\<open>Field.__init__\<close> raises
  for any other, so a schema only ever holds one of them.
\<close>

datatype dtype = UInt8 | Int8 | UInt16 | Int16 | UInt32 | Int32 | UInt64 | Int64

record field =
  f_name :: string
  f_dtype :: dtype

text \<open>The byte size of a field, the second component of \<^verbatim>\<open>_format_map[dtype]\<close>.\<close>

fun dtype_size :: "dtype \<Rightarrow> nat" where
  "dtype_size UInt8 = 1"
| "dtype_size Int8 = 1"
| "dtype_size UInt16 = 2"
| "dtype_size Int16 = 2"
| "dtype_size UInt32 = 4"
| "dtype_size Int32 = 4"
| "dtype_size UInt64 = 8"
| "dtype_size Int64 = 8"

text \<open>
  The bounds that the struct format of a dtype can represent (what \<^verbatim>\<open>struct.pack\<close>
  accepts for the format characters B, b, H, h, I, i, Q, q).
\<close>

fun dtype_min :: "dtype \<Rightarrow> int" where
  "dtype_min UInt8 = 0"
| "dtype_min Int8 = - 128"
| "dtype_min UInt16 = 0"
| "dtype_min Int16 = - 32768"
| "dtype_min UInt32 = 0"
| "dtype_min Int32 = - 2147483648"
| "dtype_min UInt64 = 0"
| "dtype_min Int64 = - 9223372036854775808"

fun dtype_max :: "dtype \<Rightarrow> int" where
  "dtype_max UInt8 = 255"
| "dtype_max Int8 = 127"
| "dtype_max UInt16 = 65535"
| "dtype_max Int16 = 32767"
| "dtype_max UInt32 = 4294967295"
| "dtype_max Int32 = 2147483647"
| "dtype_max UInt64 = 18446744073709551615"
| "dtype_max Int64 = 9223372036854775807"

text \<open>
  An \<^verbatim>\<open>EdgeSchema\<close> is determined by its field list. \<^verbatim>\<open>total_size\<close> is the sum of the
  field sizes, \<^verbatim>\<open>_field_names\<close> the names in order, and \<^verbatim>\<open>field_map\<close> the dictionary
  \<^verbatim>\<open>{f.name: f for f in fields}\<close>, in which a later field of the same name wins.
  \<^verbatim>\<open>offsets\<close> has the same keys as \<^verbatim>\<open>field_map\<close>.
\<close>

definition total_size :: "field list \<Rightarrow> nat" where
  "total_size fs = sum_list (map (\<lambda>f. dtype_size (f_dtype f)) fs)"

definition field_names :: "field list \<Rightarrow> string list" where
  "field_names fs = map f_name fs"

definition field_map :: "field list \<Rightarrow> string \<rightharpoonup> field" where
  "field_map fs = map_of (rev (map (\<lambda>f. (f_name f, f)) fs))"

definition in_offsets :: "field list \<Rightarrow> string \<Rightarrow> bool" where
  "in_offsets fs n = (n \<in> set (field_names fs))"

definition get_field_dtype :: "field list \<Rightarrow> string \<Rightarrow> dtype" where
  "get_field_dtype fs n = (case field_map fs n of Some f \<Rightarrow> f_dtype f | None \<Rightarrow> UInt16)"

text \<open>
  \<^verbatim>\<open>get_max_value\<close> is a chain of substring tests on the dtype name, in the order
  uint8, uint16, uint32, int8, int16, int32, with 65535 as the fall-through. On the eight
  admitted names the chain selects the branches below; the two 64-bit names match no
  test and reach the fall-through.
\<close>

fun max_value_of :: "dtype \<Rightarrow> int" where
  "max_value_of UInt8 = 255"
| "max_value_of UInt16 = 65535"
| "max_value_of UInt32 = 4294967295"
| "max_value_of Int8 = 127"
| "max_value_of Int16 = 32767"
| "max_value_of Int32 = 2147483647"
| "max_value_of _ = 65535"

definition get_max_value :: "field list \<Rightarrow> string \<Rightarrow> int" where
  "get_max_value fs n = max_value_of (get_field_dtype fs n)"

text \<open>
  A keyword argument of \<^verbatim>\<open>add_edge\<close> is any Python object. The code distinguishes
  integers, floats (both pass \<^verbatim>\<open>isinstance(value, (int, float))\<close>) and everything
  else. A finite float is represented by its rational value.
\<close>

datatype pyval = PyInt int | PyFloat rat | PyOther

datatype graph_error =
    MissingField string
  | NotANumber string
  | OutOfRange string pyval dtype int
  | StructError

record graph_storage =
  gs_schema :: "field list"
  source_field :: string
  target_field :: string
  gs_buffer :: "8 word list"
  gs_num_edges :: nat

text \<open>The first loop of \<^verbatim>\<open>add_edge\<close>: every schema field name must be a key.\<close>

fun check_present :: "string list \<Rightarrow> (string \<times> pyval) list \<Rightarrow> graph_error option" where
  "check_present [] kw = None"
| "check_present (fname # rest) kw =
     (if map_of kw fname = None then Some (MissingField fname) else check_present rest kw)"

text \<open>
  The second loop, over \<^verbatim>\<open>fields.items()\<close>: a key that is a schema field must hold a
  number that is neither below 0 nor above \<^verbatim>\<open>get_max_value\<close>; other keys are skipped.
\<close>

fun check_range :: "field list \<Rightarrow> (string \<times> pyval) list \<Rightarrow> graph_error option" where
  "check_range fs [] = None"
| "check_range fs ((n, v) # kw) =
     (if in_offsets fs n then
        (case v of
           PyOther \<Rightarrow> Some (NotANumber n)
         | PyInt i \<Rightarrow>
             (if i < 0 \<or> i > get_max_value fs n
              then Some (OutOfRange n v (get_field_dtype fs n) (get_max_value fs n))
              else check_range fs kw)
         | PyFloat q \<Rightarrow>
             (if q < 0 \<or> q > of_int (get_max_value fs n)
              then Some (OutOfRange n v (get_field_dtype fs n) (get_max_value fs n))
              else check_range fs kw))
      else check_range fs kw)"

text \<open>
  \<^verbatim>\<open>struct.pack\<close> of one integer: little-endian, \<^verbatim>\<open>dtype_size\<close> bytes, two's complement
  for the signed formats. It raises \<^verbatim>\<open>struct.error\<close> for a non-integer and for an
  integer outside the format's bounds.
\<close>

definition le_bytes :: "nat \<Rightarrow> int \<Rightarrow> 8 word list" where
  "le_bytes n i = map (\<lambda>k. word_of_int (i div 256 ^ k)) [0..<n]"

fun pack_value :: "dtype \<Rightarrow> pyval option \<Rightarrow> graph_error + 8 word list" where
  "pack_value d (Some (PyInt i)) =
     (if dtype_min d \<le> i \<and> i \<le> dtype_max d then Inr (le_bytes (dtype_size d) i)
      else Inl StructError)"
| "pack_value d _ = Inl StructError"

fun pack :: "field list \<Rightarrow> (string \<times> pyval) list \<Rightarrow> graph_error + 8 word list" where
  "pack [] kw = Inr []"
| "pack (f # fs) kw =
     (case pack_value (f_dtype f) (map_of kw (f_name f)) of
        Inl e \<Rightarrow> Inl e
      | Inr bs \<Rightarrow> (case pack fs kw of Inl e \<Rightarrow> Inl e | Inr rest \<Rightarrow> Inr (bs @ rest)))"

text \<open>
  \<^verbatim>\<open>pack_into(buffer, offset, ...)\<close> overwrites the record's bytes in place and needs
  the buffer to reach \<^verbatim>\<open>offset + total_size\<close>.
\<close>

definition pack_into ::
  "field list \<Rightarrow> 8 word list \<Rightarrow> nat \<Rightarrow> (string \<times> pyval) list \<Rightarrow> graph_error + 8 word list" where
  "pack_into fs buf off kw =
     (case pack fs kw of
        Inl e \<Rightarrow> Inl e
      | Inr bs \<Rightarrow>
          (if off + total_size fs \<le> length buf
           then Inr (take off buf @ bs @ drop (off + total_size fs) buf)
           else Inl StructError))"

text \<open>
  \<^verbatim>\<open>add_edge\<close> returns the new edge's index or raises; the storage object is mutated in
  place, so the model returns the storage in both cases. The buffer is extended before
  \<^verbatim>\<open>pack_into\<close> runs, and stays extended when \<^verbatim>\<open>pack_into\<close> raises.
\<close>

definition add_edge ::
  "graph_storage \<Rightarrow> (string \<times> pyval) list \<Rightarrow> (graph_error + nat) \<times> graph_storage" where
  "add_edge st kw =
     (case check_present (field_names (gs_schema st)) kw of
        Some e \<Rightarrow> (Inl e, st)
      | None \<Rightarrow>
          (case check_range (gs_schema st) kw of
             Some e \<Rightarrow> (Inl e, st)
           | None \<Rightarrow>
               (let start = gs_num_edges st * total_size (gs_schema st);
                    st1 = st\<lparr>gs_buffer := gs_buffer st @ replicate (total_size (gs_schema st)) 0\<rparr>
                in case pack_into (gs_schema st) (gs_buffer st1) start kw of
                     Inl e \<Rightarrow> (Inl e, st1)
                   | Inr buf \<Rightarrow>
                       (Inr (gs_num_edges st),
                        st1\<lparr>gs_buffer := buf, gs_num_edges := gs_num_edges st + 1\<rparr>))))"

text \<open>The invariant of the store: the buffer holds exactly the records added so far.\<close>

definition storage_inv :: "graph_storage \<Rightarrow> bool" where
  "storage_inv st = (length (gs_buffer st) = gs_num_edges st * total_size (gs_schema st))"

definition narrow_schema :: "field list \<Rightarrow> bool" where
  "narrow_schema fs = list_all (\<lambda>f. f_dtype f \<noteq> UInt64 \<and> f_dtype f \<noteq> Int64) fs"

fun is_py_int :: "pyval \<Rightarrow> bool" where
  "is_py_int (PyInt i) = True"
| "is_py_int _ = False"

definition int_valued :: "(string \<times> pyval) list \<Rightarrow> bool" where
  "int_valued kw = list_all (\<lambda>(n, v). is_py_int v) kw"

text \<open>The acceptance condition of the two checking loops, for integer arguments.\<close>

definition all_present :: "field list \<Rightarrow> (string \<times> pyval) list \<Rightarrow> bool" where
  "all_present fs kw = list_all (\<lambda>n. map_of kw n \<noteq> None) (field_names fs)"

fun in_bounds :: "pyval \<Rightarrow> int \<Rightarrow> bool" where
  "in_bounds (PyInt i) m = (0 \<le> i \<and> i \<le> m)"
| "in_bounds _ m = False"

definition all_in_range :: "field list \<Rightarrow> (string \<times> pyval) list \<Rightarrow> bool" where
  "all_in_range fs kw =
     list_all (\<lambda>(n, v). in_offsets fs n \<longrightarrow> in_bounds v (dtype_max (get_field_dtype fs n))) kw"

section \<open>The task engine: data model (core/db/models)\<close>

text \<open>
  Exceptions are values. \<open>PermissionError\<close> and \<open>ValueError\<close> carry the message the
  service raises them with; \<open>DoesNotExist\<close> is what the object mapper raises when a
  relation is read whose row is absent; \<open>AttributeError\<close> is Python's error for reading an
  attribute of \<^verbatim>\<open>None\<close>; \<open>TypeError\<close> is raised by \<^verbatim>\<open>json.dumps\<close> on a value it cannot
  serialise; \<open>IntegrityError\<close> is the store's answer to a violated unique index.
\<close>

datatype error =
    PermissionError string
  | ValueError string
  | AttributeError string
  | DoesNotExist
  | TypeError string
  | IntegrityError

record task_status =
  ts_id :: nat
  ts_name :: string
  ts_is_final :: bool
  ts_is_blocking :: bool

record project_role =
  role_name :: string
  role_can_create_tasks :: bool
  role_can_edit_any_task :: bool
  role_can_delete_any_task :: bool
  role_can_edit_own_task :: bool
  role_can_delete_own_task :: bool
  role_can_create_dependencies :: bool
  role_can_delete_dependencies :: bool
  role_can_manage_members :: bool
  role_can_edit_project :: bool
  role_can_delete_project :: bool

text \<open>
  \<open>u_notification_settings\<close> is the decoded JSON column; \<open>None\<close> is the empty column, for
  which \<^verbatim>\<open>notification_settings_dict\<close> returns the default dictionary.
\<close>

record user =
  u_id :: nat
  u_username :: string
  u_notification_settings :: "(string \<times> bool) list option"

record project =
  p_id :: nat
  p_name :: string

record project_member =
  pm_project :: nat
  pm_user :: nat
  pm_role :: project_role
  pm_is_active :: bool

text \<open>
  Times are integers (minutes on the store's clock). A task row holds its status row
  (the status table is reference data that no operation here changes) and the keys of its
  project, assignee and creator.
\<close>

record task =
  t_id :: nat
  t_project :: nat
  t_name :: string
  t_status :: task_status
  t_assignee :: "nat option"
  t_creator :: nat
  t_updated_at :: int
  t_started_at :: "int option"
  t_completed_at :: "int option"
  t_deadline :: "int option"

record task_dependency =
  d_id :: nat
  d_project :: nat
  d_source_task :: nat
  d_target_task :: nat
  d_dependency_type :: string
  d_description :: "string option"
  d_created_by :: nat

text \<open>\<open>a_action_type\<close> is the \<^verbatim>\<open>code\<close> of the action's type row.\<close>

record dependency_action =
  a_id :: nat
  a_dependency :: nat
  a_action_type :: string
  a_target_user :: "nat option"
  a_target_status :: "task_status option"
  a_message_template :: "string option"
  a_delay_minutes :: int
  a_execute_order :: int
  a_is_active :: bool

datatype jval = JInt int | JStr string | JNull

record task_event =
  e_project :: nat
  e_task :: nat
  e_user :: nat
  e_event_type :: string
  e_old_value :: "string option"
  e_new_value :: "string option"
  e_metadata :: "(string \<times> jval) list option"
  e_created_at :: int

record scheduled_action =
  sa_id :: nat
  sa_project :: nat
  sa_task :: nat
  sa_action_type :: string
  sa_scheduled_for :: int
  sa_executed_at :: "int option"
  sa_payload :: "(string \<times> jval) list option"
  sa_dependency_action :: "nat option"
  sa_status :: string

text \<open>
  One call of the notifier, \<^verbatim>\<open>UserService.send_telegram_notification(user_id,
  notification_type, data)\<close>.
\<close>

record notification =
  n_user :: nat
  n_type :: string
  n_data :: "(string \<times> jval) list"

text \<open>
  The store: one list of rows per table, in row order; the log of notifier calls; and the
  clock reading \<^verbatim>\<open>datetime.now()\<close>, which is taken as constant during one operation.
\<close>

record db =
  db_statuses :: "task_status list"
  db_users :: "user list"
  db_projects :: "project list"
  db_members :: "project_member list"
  db_tasks :: "task list"
  db_dependencies :: "task_dependency list"
  db_actions :: "dependency_action list"
  db_events :: "task_event list"
  db_scheduled :: "scheduled_action list"
  db_sent :: "notification list"
  db_now :: int

subsection \<open>Reading relations\<close>

text \<open>
  A relation is resolved where the code reads a field of the related row; when the row is
  absent the read raises \<open>DoesNotExist\<close>. A relation that is only passed on as a key is
  not resolved.
\<close>

definition bind_err :: "error + 'a \<Rightarrow> ('a \<Rightarrow> error + 'b) \<Rightarrow> error + 'b" where
  "bind_err m f = (case m of Inl e \<Rightarrow> Inl e | Inr x \<Rightarrow> f x)"

definition get_task :: "db \<Rightarrow> nat \<Rightarrow> error + task" where
  "get_task st i =
     (case find (\<lambda>t. t_id t = i) (db_tasks st) of None \<Rightarrow> Inl DoesNotExist | Some t \<Rightarrow> Inr t)"

definition get_user :: "db \<Rightarrow> nat \<Rightarrow> error + user" where
  "get_user st i =
     (case find (\<lambda>u. u_id u = i) (db_users st) of None \<Rightarrow> Inl DoesNotExist | Some u \<Rightarrow> Inr u)"

definition get_project :: "db \<Rightarrow> nat \<Rightarrow> error + project" where
  "get_project st i =
     (case find (\<lambda>p. p_id p = i) (db_projects st) of None \<Rightarrow> Inl DoesNotExist | Some p \<Rightarrow> Inr p)"

definition get_dependency :: "db \<Rightarrow> nat \<Rightarrow> error + task_dependency" where
  "get_dependency st i =
     (case find (\<lambda>d. d_id d = i) (db_dependencies st) of
        None \<Rightarrow> Inl DoesNotExist | Some d \<Rightarrow> Inr d)"


definition get_status_by_name :: "db \<Rightarrow> string \<Rightarrow> task_status option" where
  "get_status_by_name st name = find (\<lambda>s. ts_name s = name) (db_statuses st)"

text \<open>
  \<^verbatim>\<open>Task.save\<close>: stamps \<^verbatim>\<open>updated_at\<close>, sets \<^verbatim>\<open>started_at\<close> or \<^verbatim>\<open>completed_at\<close> when
  the status is named in_progress or completed and the stamp is still empty, and updates
  the row with the instance's key. The instance is mutated too, so it is returned.
\<close>

definition task_save :: "db \<Rightarrow> task \<Rightarrow> task \<times> db" where
  "task_save st t =
     (let t1 = t\<lparr>t_updated_at := db_now st\<rparr>;
          t2 = (if ts_name (t_status t1) = ''in_progress'' \<and> t_started_at t1 = None
                then t1\<lparr>t_started_at := Some (db_now st)\<rparr>
                else if ts_name (t_status t1) = ''completed'' \<and> t_completed_at t1 = None
                then t1\<lparr>t_completed_at := Some (db_now st)\<rparr>
                else t1)
      in (t2, st\<lparr>db_tasks := map (\<lambda>r. if t_id r = t_id t2 then t2 else r) (db_tasks st)\<rparr>))"

text \<open>\<^verbatim>\<open>TaskEvent.log\<close>: an empty old or new value is stored as null.\<close>

definition str_or_none :: "string option \<Rightarrow> string option" where
  "str_or_none v = (case v of None \<Rightarrow> None | Some s \<Rightarrow> (if s = [] then None else Some s))"

definition event_log ::
  "db \<Rightarrow> task \<Rightarrow> user \<Rightarrow> string \<Rightarrow> string option \<Rightarrow> string option \<Rightarrow>
   (string \<times> jval) list option \<Rightarrow> db" where
  "event_log st t u ty old new meta =
     st\<lparr>db_events := db_events st @
       [\<lparr>e_project = t_project t, e_task = t_id t, e_user = u_id u, e_event_type = ty,
         e_old_value = str_or_none old, e_new_value = str_or_none new,
         e_metadata = (case meta of None \<Rightarrow> None | Some m \<Rightarrow> (if m = [] then None else Some m)),
         e_created_at = db_now st\<rparr>]\<rparr>"

section \<open>Authorisation (core/services/ProjectService.py)\<close>

definition get_user_role_in_project :: "db \<Rightarrow> user \<Rightarrow> nat \<Rightarrow> project_role option" where
  "get_user_role_in_project st u p =
     (case find (\<lambda>m. pm_project m = p \<and> pm_user m = u_id u \<and> pm_is_active m) (db_members st) of
        None \<Rightarrow> None
      | Some m \<Rightarrow> Some (pm_role m))"

definition can_edit_task :: "db \<Rightarrow> user \<Rightarrow> task \<Rightarrow> bool" where
  "can_edit_task st u t =
     (case get_user_role_in_project st u (t_project t) of
        None \<Rightarrow> False
      | Some role \<Rightarrow>
          (if role_can_edit_any_task role then True
           else if role_can_edit_own_task role then
             (let is_creator = (t_creator t = u_id u);
                  is_assignee = (t_assignee t = Some (u_id u))
              in is_creator \<or> is_assignee)
           else False))"

text \<open>
  \<^verbatim>\<open>can_create_dependencies\<close> ends in
  \<^verbatim>\<open>task.creator.id == user.id or task.assignee.id == user.id\<close>: the right operand is
  evaluated only when the left is false, and reads \<^verbatim>\<open>.id\<close> of the assignee, which is
  \<^verbatim>\<open>None\<close> for an unassigned task.
\<close>

definition can_create_dependencies :: "db \<Rightarrow> user \<Rightarrow> task \<Rightarrow> error + bool" where
  "can_create_dependencies st u t =
     (case get_user_role_in_project st u (t_project t) of
        None \<Rightarrow> Inr False
      | Some role \<Rightarrow>
          (if role_can_create_dependencies role \<and> role_can_edit_any_task role then Inr True
           else if role_can_create_dependencies role then
             (if t_creator t = u_id u then Inr True
              else (case t_assignee t of
                      None \<Rightarrow> Inl (AttributeError ''NoneType object has no attribute id'')
                    | Some a \<Rightarrow> Inr (a = u_id u)))
           else Inr False))"

section \<open>The task service (core/services/TaskService.py)\<close>

subsection \<open>Dependencies of a task and readiness\<close>

text \<open>The two queries of \<^verbatim>\<open>get_task_dependencies\<close>, in row order.\<close>

definition incoming :: "db \<Rightarrow> task \<Rightarrow> task_dependency list" where
  "incoming st t =
     filter (\<lambda>d. d_project d = t_project t \<and> d_target_task d = t_id t) (db_dependencies st)"

definition outgoing :: "db \<Rightarrow> task \<Rightarrow> task_dependency list" where
  "outgoing st t =
     filter (\<lambda>d. d_project d = t_project t \<and> d_source_task d = t_id t) (db_dependencies st)"

text \<open>The loop of \<^verbatim>\<open>check_task_readiness\<close> over the incoming dependencies.\<close>

fun sources_completed :: "db \<Rightarrow> task_dependency list \<Rightarrow> error + bool" where
  "sources_completed st [] = Inr True"
| "sources_completed st (dep # rest) =
     (case get_task st (d_source_task dep) of
        Inl e \<Rightarrow> Inl e
      | Inr source_task \<Rightarrow>
          (if ts_name (t_status source_task) \<noteq> ''completed'' then Inr False
           else sources_completed st rest))"

definition check_task_readiness :: "db \<Rightarrow> task \<Rightarrow> error + bool" where
  "check_task_readiness st t =
     (if ts_name (t_status t) \<noteq> ''todo'' then Inr False
      else if incoming st t = [] then Inr True
      else sources_completed st (incoming st t))"

subsection \<open>Cycle check\<close>

text \<open>
  \<^verbatim>\<open>would_create_cycle\<close> runs a recursive depth-first search from the target over the
  dependencies of the source's project, with a set of visited task ids shared by all calls.
  \<open>dfs\<close> is the inner function, \<open>dfs_deps\<close> its loop over the rows whose source is the
  task at hand; both return the answer and the visited set.
\<close>

definition project_deps_from :: "task_dependency list \<Rightarrow> nat \<Rightarrow> nat \<Rightarrow> task_dependency list" where
  "project_deps_from ds p task_id = filter (\<lambda>d. d_project d = p \<and> d_source_task d = task_id) ds"

function dfs :: "task_dependency list \<Rightarrow> nat \<Rightarrow> nat \<Rightarrow> nat set \<Rightarrow> nat \<Rightarrow> bool \<times> nat set"
  and dfs_deps ::
    "task_dependency list \<Rightarrow> nat \<Rightarrow> nat \<Rightarrow> nat set \<Rightarrow> task_dependency list \<Rightarrow> bool \<times> nat set"
where
  "dfs ds p src visited task_id =
     (if task_id = src then (True, visited)
      else if task_id \<in> visited then (False, visited)
      else dfs_deps ds p src (insert task_id visited) (project_deps_from ds p task_id))"
| "dfs_deps ds p src visited [] = (False, visited)"
| "dfs_deps ds p src visited (dep # rest) =
     (case dfs ds p src visited (d_target_task dep) of
        (True, v) \<Rightarrow> (True, v)
      | (False, v) \<Rightarrow> dfs_deps ds p src v rest)"
  by pat_completeness auto

text \<open>
  The search terminates: the visited set only grows, and every call that enters a task
  with outgoing rows removes it from the finitely many unvisited sources.
\<close>

lemma dfs_visited_grows:
  "dfs_dfs_deps_dom (Inl (ds, p, src, visited, task_id)) \<Longrightarrow>
     visited \<subseteq> snd (dfs ds p src visited task_id)"
  "dfs_dfs_deps_dom (Inr (ds, p, src, visited, deps)) \<Longrightarrow>
     visited \<subseteq> snd (dfs_deps ds p src visited deps)"
proof (induct rule: dfs_dfs_deps.pinduct)
  case (1 ds p src visited task_id)
  then show ?case by (auto simp: dfs.psimps)
next
  case (2 ds p src visited)
  then show ?case by (simp add: dfs_deps.psimps)
next
  case (3 ds p src visited dep rest)
  show ?case
  proof (cases "dfs ds p src visited (d_target_task dep)")
    case (Pair r v)
    with 3 show ?thesis by (cases r) (auto simp: dfs_deps.psimps)
  qed
qed

termination dfs
proof (relation "(\<lambda>x. case x of
          Inl (ds, p, src, visited, task_id) \<Rightarrow> card (set (map d_source_task ds) - visited)
        | Inr (ds, p, src, visited, deps) \<Rightarrow> card (set (map d_source_task ds) - visited))
      <*mlex*>
      measure (\<lambda>x. case x of
          Inl (ds, p, src, visited, task_id) \<Rightarrow> 1
        | Inr (ds, p, src, visited, deps) \<Rightarrow> 2 * length deps)", goal_cases)
  case 1
  show ?case by (simp add: wf_mlex)
next
  case (2 ds p src visited task_id)
  show ?case
  proof (cases "task_id \<in> set (map d_source_task ds)")
    case True
    have "card (set (map d_source_task ds) - insert task_id visited)
        < card (set (map d_source_task ds) - visited)"
      using True 2 by (intro psubset_card_mono) auto
    then show ?thesis by (simp add: mlex_less)
  next
    case False
    then have e: "project_deps_from ds p task_id = []"
      by (auto simp: project_deps_from_def filter_empty_conv)
    have "set (map d_source_task ds) - insert task_id visited = set (map d_source_task ds) - visited"
      using False by auto
    then show ?thesis using e by (simp add: mlex_leq)
  qed
next
  case (3 ds p src visited dep rest)
  show ?case by (simp add: mlex_leq)
next
  case (4 ds p src visited dep rest x y)
  have "visited \<subseteq> y"
    using 4 dfs_visited_grows(1)[of ds p src visited "d_target_task dep"] by (metis snd_conv)
  then have "card (set (map d_source_task ds) - y) \<le> card (set (map d_source_task ds) - visited)"
    by (intro card_mono) auto
  then show ?case by (simp add: mlex_leq)
qed

declare dfs.simps [simp del]

definition would_create_cycle :: "db \<Rightarrow> task \<Rightarrow> task \<Rightarrow> bool" where
  "would_create_cycle st source target =
     fst (dfs (db_dependencies st) (t_project source) (t_id source) {} (t_id target))"

subsection \<open>Notifications\<close>

definition notification_settings_dict :: "user \<Rightarrow> (string \<times> bool) list" where
  "notification_settings_dict u =
     (case u_notification_settings u of
        Some kv \<Rightarrow> kv
      | None \<Rightarrow> [(''telegram'', True), (''email'', False), (''task_assigned'', True),
                 (''task_completed'', True), (''dependency_ready'', True)])"

definition settings_get :: "(string \<times> bool) list \<Rightarrow> string \<Rightarrow> bool \<Rightarrow> bool" where
  "settings_get kv k dflt = (case map_of kv k of None \<Rightarrow> dflt | Some b \<Rightarrow> b)"

text \<open>
  \<^verbatim>\<open>send_task_notification\<close> drops the notification when the recipient's preference for
  its kind is off, and otherwise hands it to the notifier. Every caller discards the
  returned flag; the model returns \<open>True\<close> for a call that reached the notifier.
\<close>

definition send_task_notification ::
  "db \<Rightarrow> user \<Rightarrow> string \<Rightarrow> (string \<times> jval) list \<Rightarrow> bool \<times> db" where
  "send_task_notification st u notification_type task_data =
     (let settings = notification_settings_dict u in
      if notification_type = ''task_ready'' \<and> \<not> settings_get settings ''dependency_ready'' True
      then (False, st)
      else if notification_type = ''task_completed'' \<and> \<not> settings_get settings ''task_completed'' True
      then (False, st)
      else if notification_type = ''task_assigned'' \<and> \<not> settings_get settings ''task_assigned'' True
      then (False, st)
      else (True, st\<lparr>db_sent := db_sent st @
              [\<lparr>n_user = u_id u, n_type = notification_type, n_data = task_data\<rparr>]\<rparr>))"

subsection \<open>Dependency actions\<close>

text \<open>
  The default messages are Russian text; they are given by their UTF-8 bytes. The first
  two are followed by the task's name.
\<close>

definition msg_task_ready :: string where
  "msg_task_ready = map char_of [208, 151, 208, 176, 208, 180, 208, 176, 209, 135, 208, 176,
     32, 208, 179, 208, 190, 209, 130, 208, 190, 208, 178, 208, 176, 32, 208, 186, 32, 208, 178,
     209, 139, 208, 191, 208, 190, 208, 187, 208, 189, 208, 181, 208, 189, 208, 184, 209, 142,
     58, 32 :: nat]"

definition msg_task_completed :: string where
  "msg_task_completed = map char_of [208, 151, 208, 176, 208, 180, 208, 176, 209, 135, 208, 176,
     32, 208, 178, 209, 139, 208, 191, 208, 190, 208, 187, 208, 189, 208, 181, 208, 189, 208, 176,
     58, 32 :: nat]"

definition msg_task_notice :: string where
  "msg_task_notice = map char_of [208, 163, 208, 178, 208, 181, 208, 180, 208, 190, 208, 188,
     208, 187, 208, 181, 208, 189, 208, 184, 208, 181, 32, 208, 190, 32, 208, 183, 208, 176, 208,
     180, 208, 176, 209, 135, 208, 181 :: nat]"

text \<open>Python's \<^verbatim>\<open>template or default\<close>: the default replaces a null or empty template.\<close>

definition or_default :: "string option \<Rightarrow> string \<Rightarrow> string" where
  "or_default t d = (case t of None \<Rightarrow> d | Some s \<Rightarrow> (if s = [] then d else s))"

text \<open>The per-action record that \<^verbatim>\<open>execute_single_action\<close> and the scheduling branch build.\<close>

record action_result =
  r_action_id :: nat
  r_type :: string
  r_status :: string
  r_timestamp :: "int option"
  r_scheduled_for :: "int option"
  r_target_user :: "string option"
  r_new_status :: "string option"
  r_error :: "error option"

definition task_data ::
  "task \<Rightarrow> project \<Rightarrow> string \<Rightarrow> (string \<times> jval) list" where
  "task_data t proj message =
     [(''task_id'', JInt (int (t_id t))), (''task_name'', JStr (t_name t)),
      (''project_name'', JStr (p_name proj)), (''message'', JStr message)]"

text \<open>
  The four branches of \<^verbatim>\<open>execute_single_action\<close>. Each returns the result record as the
  branch leaves it, or the exception that the enclosing \<^verbatim>\<open>try\<close> catches.
\<close>

definition notify_assignee_action ::
  "db \<Rightarrow> dependency_action \<Rightarrow> action_result \<Rightarrow> (error + action_result) \<times> db" where
  "notify_assignee_action st action result =
     (case bind_err (get_dependency st (a_dependency action))
             (\<lambda>dep. get_task st (d_target_task dep)) of
        Inl e \<Rightarrow> (Inl e, st)
      | Inr target_task \<Rightarrow>
          (case t_assignee target_task of
             None \<Rightarrow> (Inr result, st)
           | Some uid \<Rightarrow>
               (case bind_err (get_user st uid) (\<lambda>assignee.
                     bind_err (get_project st (t_project target_task)) (\<lambda>proj.
                     Inr (assignee, proj))) of
                  Inl e \<Rightarrow> (Inl e, st)
                | Inr (assignee, proj) \<Rightarrow>
                    (let (delivered, st1) = send_task_notification st assignee ''task_ready''
                           (task_data target_task proj
                              (or_default (a_message_template action)
                                 (msg_task_ready @ t_name target_task)))
                     in (Inr (result\<lparr>r_target_user := Some (u_username assignee)\<rparr>), st1)))))"

definition notify_creator_action ::
  "db \<Rightarrow> dependency_action \<Rightarrow> action_result \<Rightarrow> (error + action_result) \<times> db" where
  "notify_creator_action st action result =
     (case bind_err (get_dependency st (a_dependency action)) (\<lambda>dep.
           bind_err (get_task st (d_source_task dep)) (\<lambda>source_task.
           bind_err (get_user st (t_creator source_task)) (\<lambda>creator.
           bind_err (get_project st (t_project source_task)) (\<lambda>proj.
           Inr (source_task, creator, proj))))) of
        Inl e \<Rightarrow> (Inl e, st)
      | Inr (source_task, creator, proj) \<Rightarrow>
          (let (delivered, st1) = send_task_notification st creator ''task_completed''
                 (task_data source_task proj
                    (or_default (a_message_template action)
                       (msg_task_completed @ t_name source_task)))
           in (Inr (result\<lparr>r_target_user := Some (u_username creator)\<rparr>), st1)))"

definition notify_custom_action ::
  "db \<Rightarrow> dependency_action \<Rightarrow> nat \<Rightarrow> action_result \<Rightarrow> (error + action_result) \<times> db" where
  "notify_custom_action st action uid result =
     (case bind_err (get_user st uid) (\<lambda>target_user.
           bind_err (get_dependency st (a_dependency action)) (\<lambda>dep.
           bind_err (get_task st (d_target_task dep)) (\<lambda>target_task.
           bind_err (get_project st (d_project dep)) (\<lambda>proj.
           Inr (target_user, target_task, proj))))) of
        Inl e \<Rightarrow> (Inl e, st)
      | Inr (target_user, target_task, proj) \<Rightarrow>
          (let (delivered, st1) = send_task_notification st target_user ''custom''
                 (task_data target_task proj
                    (or_default (a_message_template action) msg_task_notice))
           in (Inr (result\<lparr>r_target_user := Some (u_username target_user)\<rparr>), st1)))"

text \<open>
  The \<^verbatim>\<open>change_status\<close> branch writes the target's status itself: it assigns the status,
  saves the row and logs the event. It does not call \<^verbatim>\<open>change_task_status\<close>.
\<close>

definition change_status_action ::
  "db \<Rightarrow> dependency_action \<Rightarrow> task_status \<Rightarrow> user \<Rightarrow> action_result \<Rightarrow>
   (error + action_result) \<times> db" where
  "change_status_action st action target_status triggered_by result =
     (case bind_err (get_dependency st (a_dependency action))
             (\<lambda>dep. get_task st (d_target_task dep)) of
        Inl e \<Rightarrow> (Inl e, st)
      | Inr target_task \<Rightarrow>
          (let old_status = t_status target_task;
               (saved, st1) = task_save st (target_task\<lparr>t_status := target_status\<rparr>);
               st2 = event_log st1 saved triggered_by ''status_changed''
                       (Some (ts_name old_status)) (Some (ts_name target_status))
                       (Some [(''triggered_by_action'', JInt (int (a_id action)))])
           in (Inr (result\<lparr>r_new_status := Some (ts_name target_status)\<rparr>), st2)))"

definition execute_single_action ::
  "db \<Rightarrow> dependency_action \<Rightarrow> string \<Rightarrow> user \<Rightarrow> action_result \<times> db" where
  "execute_single_action st action trigger_event triggered_by =
     (let result = \<lparr>r_action_id = a_id action, r_type = a_action_type action,
                     r_status = ''executed'', r_timestamp = Some (db_now st),
                     r_scheduled_for = None, r_target_user = None, r_new_status = None,
                     r_error = None\<rparr>;
          (outcome, st1) =
            (if a_action_type action = ''notify_assignee'' then
               notify_assignee_action st action result
             else if a_action_type action = ''notify_creator'' then
               notify_creator_action st action result
             else if a_action_type action = ''notify_custom'' \<and> a_target_user action \<noteq> None then
               notify_custom_action st action (the (a_target_user action)) result
             else if a_action_type action = ''change_status'' \<and> a_target_status action \<noteq> None then
               change_status_action st action (the (a_target_status action)) triggered_by result
             else (Inr result, st))
      in case outcome of
           Inl e \<Rightarrow> (result\<lparr>r_status := ''failed'', r_error := Some e\<rparr>, st1)
         | Inr r \<Rightarrow> (r, st1))"

text \<open>
  \<^verbatim>\<open>execute_dependency_actions\<close>: the active actions of the dependency in
  \<^verbatim>\<open>execute_order\<close> (ties in row order); an action with a positive delay becomes a
  pending scheduled row, any other is executed at once.
\<close>

definition next_id :: "nat list \<Rightarrow> nat" where
  "next_id ids = Suc (fold max ids 0)"

definition active_actions :: "db \<Rightarrow> task_dependency \<Rightarrow> dependency_action list" where
  "active_actions st dep =
     sort_key a_execute_order
       (filter (\<lambda>a. a_dependency a = d_id dep \<and> a_is_active a) (db_actions st))"

fun run_actions ::
  "db \<Rightarrow> task_dependency \<Rightarrow> string \<Rightarrow> user \<Rightarrow> dependency_action list \<Rightarrow>
   action_result list \<times> db" where
  "run_actions st dep trigger_event triggered_by [] = ([], st)"
| "run_actions st dep trigger_event triggered_by (action # rest) =
     (if a_delay_minutes action > 0 then
        (let scheduled =
               \<lparr>sa_id = next_id (map sa_id (db_scheduled st)),
                sa_project = d_project dep, sa_task = d_target_task dep,
                sa_action_type = ''delayed_notification'',
                sa_scheduled_for = db_now st + a_delay_minutes action,
                sa_executed_at = None,
                sa_payload = Some [(''action_id'', JInt (int (a_id action))),
                                   (''trigger_event'', JStr trigger_event),
                                   (''triggered_by'', JStr (u_username triggered_by))],
                sa_dependency_action = Some (a_id action),
                sa_status = ''pending''\<rparr>;
             st1 = st\<lparr>db_scheduled := db_scheduled st @ [scheduled]\<rparr>;
             (executed, st2) = run_actions st1 dep trigger_event triggered_by rest
         in (\<lparr>r_action_id = a_id action, r_type = a_action_type action,
              r_status = ''scheduled'', r_timestamp = None,
              r_scheduled_for = Some (sa_scheduled_for scheduled), r_target_user = None,
              r_new_status = None, r_error = None\<rparr> # executed, st2))
      else
        (let (result, st1) = execute_single_action st action trigger_event triggered_by;
             (executed, st2) = run_actions st1 dep trigger_event triggered_by rest
         in (result # executed, st2)))"

definition execute_dependency_actions ::
  "db \<Rightarrow> task_dependency \<Rightarrow> string \<Rightarrow> user \<Rightarrow> action_result list \<times> db" where
  "execute_dependency_actions st dep trigger_event triggered_by =
     run_actions st dep trigger_event triggered_by (active_actions st dep)"

subsection \<open>Status changes\<close>

text \<open>
  \<^verbatim>\<open>handle_task_completed\<close>: for every outgoing dependency, run its actions and then
  evaluate the readiness of its target (the value is discarded, but reading the target
  row can raise). State changes made before an exception stay, as the code runs outside
  any transaction.
\<close>

fun completed_loop ::
  "db \<Rightarrow> user \<Rightarrow> task_dependency list \<Rightarrow> (error + action_result list) \<times> db" where
  "completed_loop st completed_by [] = (Inr [], st)"
| "completed_loop st completed_by (dependency # rest) =
     (let (actions, st1) = execute_dependency_actions st dependency ''task_completed'' completed_by
      in case bind_err (get_task st1 (d_target_task dependency)) (check_task_readiness st1) of
           Inl e \<Rightarrow> (Inl e, st1)
         | Inr ready \<Rightarrow>
             (case completed_loop st1 completed_by rest of
                (Inl e, st2) \<Rightarrow> (Inl e, st2)
              | (Inr executed, st2) \<Rightarrow> (Inr (actions @ executed), st2)))"

definition handle_task_completed ::
  "db \<Rightarrow> task \<Rightarrow> user \<Rightarrow> (error + action_result list) \<times> db" where
  "handle_task_completed st t completed_by = completed_loop st completed_by (outgoing st t)"

record status_change =
  sc_task :: task
  sc_status_changed :: bool
  sc_old_status :: task_status
  sc_new_status :: task_status
  sc_actions_executed :: "action_result list"

text \<open>
  \<^verbatim>\<open>change_task_status\<close>. The only permission consulted is \<^verbatim>\<open>can_edit_task\<close>. An
  exception of \<^verbatim>\<open>handle_task_completed\<close> is caught and logged, and the result then has
  no executed actions.
\<close>

definition change_task_status ::
  "db \<Rightarrow> task \<Rightarrow> string \<Rightarrow> user \<Rightarrow> (error + status_change) \<times> db" where
  "change_task_status st t new_status_name changed_by =
     (if \<not> can_edit_task st changed_by t then
        (Inl (PermissionError ''You don't have permission to change this task status''), st)
      else
        (case get_status_by_name st new_status_name of
           None \<Rightarrow> (Inl (ValueError (''Status '' @ CHR 0x27 # new_status_name @ CHR 0x27 # '' not found'')), st)
         | Some new_status \<Rightarrow>
             (let old_status = t_status t in
              if ts_id old_status = ts_id new_status then
                (Inr \<lparr>sc_task = t, sc_status_changed = False, sc_old_status = old_status,
                      sc_new_status = new_status, sc_actions_executed = []\<rparr>, st)
              else
                (let (saved, st1) = task_save st (t\<lparr>t_status := new_status\<rparr>);
                     st2 = event_log st1 saved changed_by ''status_changed''
                             (Some (ts_name old_status)) (Some (ts_name new_status)) None;
                     result = \<lparr>sc_task = saved, sc_status_changed = True,
                               sc_old_status = old_status, sc_new_status = new_status,
                               sc_actions_executed = []\<rparr>
                 in if ts_is_final new_status \<and> \<not> ts_is_final old_status then
                      (case handle_task_completed st2 saved changed_by of
                         (Inr actions, st3) \<Rightarrow> (Inr (result\<lparr>sc_actions_executed := actions\<rparr>), st3)
                       | (Inl e, st3) \<Rightarrow> (Inr result, st3))
                    else (Inr result, st2)))))"

subsection \<open>Creating a dependency\<close>

text \<open>
  \<^verbatim>\<open>create_dependency\<close>: permission, same project, cycle check, duplicate check, insert,
  event, and the actions of the new dependency when the source is already final. The
  store's unique index on (source, target) rejects a pair that the duplicate query, which
  also filters on the project, did not find.
\<close>

definition create_dependency ::
  "db \<Rightarrow> task \<Rightarrow> task \<Rightarrow> user \<Rightarrow> string \<Rightarrow> string option \<Rightarrow>
   (error + task_dependency) \<times> db" where
  "create_dependency st source_task target_task created_by dependency_type description =
     (case can_create_dependencies st created_by source_task of
        Inl e \<Rightarrow> (Inl e, st)
      | Inr allowed \<Rightarrow>
          (if \<not> allowed then
             (Inl (PermissionError
                ''You don't have permission to create dependencies for this task''), st)
           else if t_project source_task \<noteq> t_project target_task then
             (Inl (ValueError ''Tasks must be in the same project''), st)
           else if would_create_cycle st source_task target_task then
             (Inl (ValueError ''This dependency would create a cycle''), st)
           else if find (\<lambda>d. d_project d = t_project source_task \<and>
                              d_source_task d = t_id source_task \<and>
                              d_target_task d = t_id target_task) (db_dependencies st) \<noteq> None then
             (Inl (ValueError ''Dependency already exists''), st)
           else if find (\<lambda>d. d_source_task d = t_id source_task \<and>
                              d_target_task d = t_id target_task) (db_dependencies st) \<noteq> None then
             (Inl IntegrityError, st)
           else
             (let dependency =
                    \<lparr>d_id = next_id (map d_id (db_dependencies st)),
                     d_project = t_project source_task,
                     d_source_task = t_id source_task, d_target_task = t_id target_task,
                     d_dependency_type = dependency_type, d_description = description,
                     d_created_by = u_id created_by\<rparr>;
                  st1 = st\<lparr>db_dependencies := db_dependencies st @ [dependency]\<rparr>;
                  st2 = event_log st1 source_task created_by ''dependency_added'' None None
                          (Some [(''dependency_id'', JInt (int (d_id dependency))),
                                 (''target_task_id'', JInt (int (t_id target_task))),
                                 (''target_task_name'', JStr (t_name target_task))])
              in if ts_is_final (t_status source_task) then
                   (let (executed, st3) =
                          execute_dependency_actions st2 dependency ''task_completed'' created_by
                    in (Inr dependency, st3))
                 else (Inr dependency, st2))))"

subsection \<open>The scheduler tick\<close>








section \<open>An example project\<close>

text \<open>
  The default statuses and roles of the models, two users (Olga the owner, Ivan a
  developer) and a chain of tasks A, B, C with dependencies A to B and B to C. B and C are
  assigned to Ivan; A is unassigned and was created by Olga.
\<close>

definition st_todo :: task_status where
  "st_todo = \<lparr>ts_id = 1, ts_name = ''todo'', ts_is_final = False, ts_is_blocking = False\<rparr>"

definition st_in_progress :: task_status where
  "st_in_progress =
     \<lparr>ts_id = 2, ts_name = ''in_progress'', ts_is_final = False, ts_is_blocking = False\<rparr>"

definition st_review :: task_status where
  "st_review = \<lparr>ts_id = 3, ts_name = ''review'', ts_is_final = False, ts_is_blocking = False\<rparr>"

definition st_completed :: task_status where
  "st_completed =
     \<lparr>ts_id = 4, ts_name = ''completed'', ts_is_final = True, ts_is_blocking = False\<rparr>"

definition st_blocked :: task_status where
  "st_blocked = \<lparr>ts_id = 5, ts_name = ''blocked'', ts_is_final = False, ts_is_blocking = True\<rparr>"

definition st_cancelled :: task_status where
  "st_cancelled =
     \<lparr>ts_id = 6, ts_name = ''cancelled'', ts_is_final = True, ts_is_blocking = False\<rparr>"

definition default_statuses :: "task_status list" where
  "default_statuses = [st_todo, st_in_progress, st_review, st_completed, st_blocked]"

definition owner_role :: project_role where
  "owner_role = \<lparr>role_name = ''owner'', role_can_create_tasks = True,
     role_can_edit_any_task = True, role_can_delete_any_task = True,
     role_can_edit_own_task = True, role_can_delete_own_task = True,
     role_can_create_dependencies = True, role_can_delete_dependencies = True,
     role_can_manage_members = True, role_can_edit_project = True,
     role_can_delete_project = True\<rparr>"

definition developer_role :: project_role where
  "developer_role = \<lparr>role_name = ''developer'', role_can_create_tasks = True,
     role_can_edit_any_task = False, role_can_delete_any_task = False,
     role_can_edit_own_task = True, role_can_delete_own_task = True,
     role_can_create_dependencies = True, role_can_delete_dependencies = False,
     role_can_manage_members = False, role_can_edit_project = False,
     role_can_delete_project = False\<rparr>"

definition olga :: user where
  "olga = \<lparr>u_id = 1, u_username = ''olga'', u_notification_settings = None\<rparr>"

definition ivan :: user where
  "ivan = \<lparr>u_id = 2, u_username = ''ivan'', u_notification_settings = None\<rparr>"

definition task_a :: task where
  "task_a = \<lparr>t_id = 1, t_project = 1, t_name = ''A'', t_status = st_todo, t_assignee = None,
     t_creator = 1, t_updated_at = 0, t_started_at = None, t_completed_at = None,
     t_deadline = None\<rparr>"

definition task_b :: task where
  "task_b = \<lparr>t_id = 2, t_project = 1, t_name = ''B'', t_status = st_todo, t_assignee = Some 2,
     t_creator = 1, t_updated_at = 0, t_started_at = None, t_completed_at = None,
     t_deadline = None\<rparr>"

definition task_c :: task where
  "task_c = \<lparr>t_id = 3, t_project = 1, t_name = ''C'', t_status = st_todo, t_assignee = Some 2,
     t_creator = 2, t_updated_at = 0, t_started_at = None, t_completed_at = None,
     t_deadline = None\<rparr>"

definition dep_ab :: task_dependency where
  "dep_ab = \<lparr>d_id = 1, d_project = 1, d_source_task = 1, d_target_task = 2,
     d_dependency_type = ''simple'', d_description = None, d_created_by = 1\<rparr>"

definition dep_bc :: task_dependency where
  "dep_bc = \<lparr>d_id = 2, d_project = 1, d_source_task = 2, d_target_task = 3,
     d_dependency_type = ''simple'', d_description = None, d_created_by = 1\<rparr>"

text \<open>The action of end-to-end scenario 3 of the specification, on the edge A to B.\<close>

definition act_ready :: dependency_action where
  "act_ready = \<lparr>a_id = 1, a_dependency = 1, a_action_type = ''notify_assignee'',
     a_target_user = None, a_target_status = None,
     a_message_template = Some ''Ready: {task_name}'', a_delay_minutes = 0,
     a_execute_order = 0, a_is_active = True\<rparr>"

text \<open>An action on A to B that completes B, and a notification on B to C.\<close>

definition act_complete_b :: dependency_action where
  "act_complete_b = \<lparr>a_id = 2, a_dependency = 1, a_action_type = ''change_status'',
     a_target_user = None, a_target_status = Some st_completed,
     a_message_template = None, a_delay_minutes = 0,
     a_execute_order = 0, a_is_active = True\<rparr>"

definition act_notify_c :: dependency_action where
  "act_notify_c = \<lparr>a_id = 3, a_dependency = 2, a_action_type = ''notify_assignee'',
     a_target_user = None, a_target_status = None,
     a_message_template = Some ''C can start'', a_delay_minutes = 0,
     a_execute_order = 0, a_is_active = True\<rparr>"

definition demo_db :: db where
  "demo_db = \<lparr>db_statuses = default_statuses, db_users = [olga, ivan],
     db_projects = [\<lparr>p_id = 1, p_name = ''Demo''\<rparr>],
     db_members = [\<lparr>pm_project = 1, pm_user = 1, pm_role = owner_role, pm_is_active = True\<rparr>,
                   \<lparr>pm_project = 1, pm_user = 2, pm_role = developer_role, pm_is_active = True\<rparr>],
     db_tasks = [task_a, task_b, task_c], db_dependencies = [dep_ab, dep_bc],
     db_actions = [], db_events = [], db_scheduled = [], db_sent = [], db_now = 1000\<rparr>"

text \<open>The example project after A was completed, and after A was moved to a final status that is
  not named completed.\<close>

definition demo_a_done :: db where
  "demo_a_done = demo_db\<lparr>db_tasks := [task_a\<lparr>t_status := st_completed\<rparr>, task_b, task_c]\<rparr>"

definition demo_a_cancelled :: db where
  "demo_a_cancelled = demo_db\<lparr>db_tasks := [task_a\<lparr>t_status := st_cancelled\<rparr>, task_b, task_c]\<rparr>"

text \<open>The example project with B completed, and B's row as loaded from it.\<close>

definition task_b_done :: task where
  "task_b_done = task_b\<lparr>t_status := st_completed, t_completed_at := Some 900\<rparr>"

definition demo_b_done :: db where
  "demo_b_done = demo_db\<lparr>db_tasks := [task_a, task_b_done, task_c]\<rparr>"

text \<open>
  Scenario 3 of the specification: the action \<open>act_ready\<close> on the edge A to B. And a
  cascade set-up: completing A completes B through \<open>act_complete_b\<close>, and the edge B to C
  carries a notification for C's assignee.
\<close>

definition demo_notify :: db where
  "demo_notify = demo_db\<lparr>db_actions := [act_ready]\<rparr>"

definition demo_cascade :: db where
  "demo_cascade = demo_db\<lparr>db_actions := [act_complete_b, act_notify_c]\<rparr>"











text \<open>
  A two-field store used in examples: a signed 8-bit source and an unsigned 64-bit target;
  and the nine-field schema of \<^verbatim>\<open>make_extended_schema\<close> reduced to its first three fields.
\<close>

definition demo_schema :: "field list" where
  "demo_schema = [\<lparr>f_name = ''source'', f_dtype = Int8\<rparr>, \<lparr>f_name = ''target'', f_dtype = UInt64\<rparr>]"

definition demo_storage :: graph_storage where
  "demo_storage = \<lparr>gs_schema = demo_schema, source_field = ''source'', target_field = ''target'',
     gs_buffer = [], gs_num_edges = 0\<rparr>"

definition small_schema :: "field list" where
  "small_schema = [\<lparr>f_name = ''source'', f_dtype = UInt16\<rparr>, \<lparr>f_name = ''target'', f_dtype = UInt16\<rparr>,
     \<lparr>f_name = ''type'', f_dtype = UInt8\<rparr>]"

definition small_storage :: graph_storage where
  "small_storage = \<lparr>gs_schema = small_schema, source_field = ''source'', target_field = ''target'',
     gs_buffer = [], gs_num_edges = 0\<rparr>"

section \<open>Properties of the edge store\<close>

lemma check_present_None: "check_present ns kw = None \<longleftrightarrow> list_all (\<lambda>n. map_of kw n \<noteq> None) ns"
  by (induction ns) auto

lemma max_value_of_narrow: "d \<noteq> UInt64 \<Longrightarrow> d \<noteq> Int64 \<Longrightarrow> max_value_of d = dtype_max d"
  by (cases d) auto

lemma field_map_distinct:
  "distinct (field_names fs) \<Longrightarrow> f \<in> set fs \<Longrightarrow> field_map fs (f_name f) = Some f"
  unfolding field_map_def field_names_def
  by (rule map_of_is_SomeI) (auto simp: rev_map[symmetric] distinct_rev comp_def)

lemma dtype_min_le_0: "dtype_min d \<le> 0"
  by (cases d) auto

lemma check_range_None:
  "int_valued kw \<Longrightarrow>
   check_range fs kw = None \<longleftrightarrow>
     list_all (\<lambda>(n, v). in_offsets fs n \<longrightarrow> in_bounds v (get_max_value fs n)) kw"
proof (induction kw)
  case Nil
  then show ?case by simp
next
  case (Cons a kw)
  obtain n v where a: "a = (n, v)" by (cases a)
  from Cons.prems a obtain i where v: "v = PyInt i" and rest: "int_valued kw"
    by (cases v) (auto simp: int_valued_def)
  show ?case using Cons.IH[OF rest] by (simp add: a v)
qed

lemma check_range_error:
  "int_valued kw \<Longrightarrow> check_range fs kw = Some e \<Longrightarrow> \<exists>n v d m. e = OutOfRange n v d m"
proof (induction kw)
  case Nil
  then show ?case by simp
next
  case (Cons a kw)
  obtain n v where a: "a = (n, v)" by (cases a)
  from Cons.prems a obtain i where v: "v = PyInt i" and rest: "int_valued kw"
    by (cases v) (auto simp: int_valued_def)
  show ?case using Cons.IH[OF rest] Cons.prems(2) by (auto simp: a v split: if_splits)
qed

lemma check_present_error: "check_present ns kw = Some e \<Longrightarrow> \<exists>n. e = MissingField n"
  by (induction ns) (auto split: if_splits)

lemma pack_ok:
  assumes "distinct (field_names fs)"
    and "all_present fs kw" and "all_in_range fs kw"
    and "set gs \<subseteq> set fs"
  shows "\<exists>bs. pack gs kw = Inr bs \<and> length bs = total_size gs"
  using assms(4)
proof (induction gs)
  case Nil
  then show ?case by (simp add: total_size_def)
next
  case (Cons g gs)
  then have g: "g \<in> set fs" and rest: "set gs \<subseteq> set fs" by auto
  from g assms(2) obtain v where v: "map_of kw (f_name g) = Some v"
    by (auto simp: all_present_def field_names_def list_all_iff)
  then have mem: "(f_name g, v) \<in> set kw" by (rule map_of_SomeD)
  have off: "in_offsets fs (f_name g)" using g by (auto simp: in_offsets_def field_names_def)
  have dt: "get_field_dtype fs (f_name g) = f_dtype g"
    using field_map_distinct[OF assms(1) g] by (simp add: get_field_dtype_def)
  from mem off assms(3) have "in_bounds v (dtype_max (get_field_dtype fs (f_name g)))"
    by (auto simp: all_in_range_def list_all_iff)
  then obtain i where i: "v = PyInt i" "0 \<le> i" "i \<le> dtype_max (f_dtype g)"
    unfolding dt by (cases v) auto
  have "dtype_min (f_dtype g) \<le> i" using dtype_min_le_0[of "f_dtype g"] i(2) by linarith
  with i v have pv: "pack_value (f_dtype g) (map_of kw (f_name g)) = Inr (le_bytes (dtype_size (f_dtype g)) i)"
    by simp
  from Cons.IH[OF rest] obtain bs where bs: "pack gs kw = Inr bs" "length bs = total_size gs" by blast
  show ?case using pv bs by (simp add: total_size_def le_bytes_def)
qed

lemma range_narrow:
  assumes "narrow_schema fs"
  shows "get_max_value fs n = dtype_max (get_field_dtype fs n)"
proof (cases "field_map fs n")
  case None
  then show ?thesis by (simp add: get_max_value_def get_field_dtype_def)
next
  case (Some f)
  then have "(n, f) \<in> set (rev (map (\<lambda>f. (f_name f, f)) fs))"
    unfolding field_map_def by (rule map_of_SomeD)
  then have "f \<in> set fs" by auto
  with assms have "f_dtype f \<noteq> UInt64" "f_dtype f \<noteq> Int64"
    by (auto simp: narrow_schema_def list_all_iff)
  then show ?thesis using Some
    by (simp add: get_max_value_def get_field_dtype_def max_value_of_narrow)
qed

lemma check_range_narrow:
  "int_valued kw \<Longrightarrow> narrow_schema fs \<Longrightarrow> check_range fs kw = None \<longleftrightarrow> all_in_range fs kw"
  by (simp add: check_range_None all_in_range_def range_narrow)


text \<open>
  C9 (amended). For a store that satisfies its buffer invariant, whose schema has distinct
  field names of 8-, 16- or 32-bit dtypes, and for integer arguments: add_edge succeeds
  exactly when every schema field is supplied and every supplied schema field lies between
  0 and the maximum of its dtype. On success it returns the old edge count, appends one
  record of total_size bytes and keeps the earlier bytes. A missing schema field gives a
  missing-field error, a value outside 0..max a range error, and in both cases the store is
  unchanged.
\<close>

theorem add_edge_range_check:
  assumes inv: "storage_inv st"
    and dist: "distinct (field_names (gs_schema st))"
    and narrow: "narrow_schema (gs_schema st)"
    and ints: "int_valued kw"
  shows "((\<exists>idx. fst (add_edge st kw) = Inr idx) \<longleftrightarrow>
           all_present (gs_schema st) kw \<and> all_in_range (gs_schema st) kw) \<and>
         (all_present (gs_schema st) kw \<and> all_in_range (gs_schema st) kw \<longrightarrow>
           fst (add_edge st kw) = Inr (gs_num_edges st) \<and>
           gs_num_edges (snd (add_edge st kw)) = gs_num_edges st + 1 \<and>
           length (gs_buffer (snd (add_edge st kw))) =
             length (gs_buffer st) + total_size (gs_schema st) \<and>
           take (length (gs_buffer st)) (gs_buffer (snd (add_edge st kw))) = gs_buffer st \<and>
           storage_inv (snd (add_edge st kw))) \<and>
         (\<not> all_present (gs_schema st) kw \<longrightarrow>
           (\<exists>n. fst (add_edge st kw) = Inl (MissingField n)) \<and> snd (add_edge st kw) = st) \<and>
         (all_present (gs_schema st) kw \<and> \<not> all_in_range (gs_schema st) kw \<longrightarrow>
           (\<exists>n v d m. fst (add_edge st kw) = Inl (OutOfRange n v d m)) \<and>
           snd (add_edge st kw) = st)"
proof -
  let ?fs = "gs_schema st"
  have present: "check_present (field_names ?fs) kw = None \<longleftrightarrow> all_present ?fs kw"
    by (simp add: check_present_None all_present_def)
  have range: "check_range ?fs kw = None \<longleftrightarrow> all_in_range ?fs kw"
    using ints narrow by (rule check_range_narrow)
  have ok: "fst (add_edge st kw) = Inr (gs_num_edges st) \<and>
           gs_num_edges (snd (add_edge st kw)) = gs_num_edges st + 1 \<and>
           length (gs_buffer (snd (add_edge st kw))) =
             length (gs_buffer st) + total_size (gs_schema st) \<and>
           take (length (gs_buffer st)) (gs_buffer (snd (add_edge st kw))) = gs_buffer st \<and>
           storage_inv (snd (add_edge st kw))"
    if p: "all_present ?fs kw" and r: "all_in_range ?fs kw"
  proof -
    from pack_ok[OF dist p r subset_refl] obtain bs
      where bs: "pack ?fs kw = Inr bs" "length bs = total_size ?fs" by blast
    show ?thesis
      using p r bs inv present range
      by (simp add: add_edge_def pack_into_def storage_inv_def Let_def)
  qed
  have missing: "(\<exists>n. fst (add_edge st kw) = Inl (MissingField n)) \<and> snd (add_edge st kw) = st"
    if "\<not> all_present ?fs kw"
  proof -
    from that present obtain e where e: "check_present (field_names ?fs) kw = Some e" by auto
    with check_present_error[OF e] show ?thesis by (auto simp: add_edge_def)
  qed
  have bad: "(\<exists>n v d m. fst (add_edge st kw) = Inl (OutOfRange n v d m)) \<and> snd (add_edge st kw) = st"
    if p: "all_present ?fs kw" and r: "\<not> all_in_range ?fs kw"
  proof -
    from r range obtain e where e: "check_range ?fs kw = Some e" by auto
    with check_range_error[OF ints e] p present show ?thesis by (auto simp: add_edge_def)
  qed
  have iff: "(\<exists>idx. fst (add_edge st kw) = Inr idx) \<longleftrightarrow> all_present ?fs kw \<and> all_in_range ?fs kw"
    using ok missing bad by (metis Inl_Inr_False)
  show ?thesis using iff ok missing bad by blast
qed

theorem add_edge_range_check_witness:
  "storage_inv small_storage \<and> distinct (field_names (gs_schema small_storage)) \<and>
   narrow_schema (gs_schema small_storage) \<and>
   int_valued [(''source'', PyInt 1), (''target'', PyInt 65535), (''type'', PyInt 0)] \<and>
   all_present (gs_schema small_storage)
     [(''source'', PyInt 1), (''target'', PyInt 65535), (''type'', PyInt 0)] \<and>
   all_in_range (gs_schema small_storage)
     [(''source'', PyInt 1), (''target'', PyInt 65535), (''type'', PyInt 0)] \<and>
   fst (add_edge small_storage
     [(''source'', PyInt 1), (''target'', PyInt 65535), (''type'', PyInt 0)]) = Inr 0 \<and>
   length (gs_buffer (snd (add_edge small_storage
     [(''source'', PyInt 1), (''target'', PyInt 65535), (''type'', PyInt 0)]))) = 5"
proof -
  let ?kw = "[(''source'', PyInt 1), (''target'', PyInt 65535), (''type'', PyInt 0)]"
  have h1: "storage_inv small_storage"
    by (simp add: storage_inv_def small_storage_def)
  have h2: "distinct (field_names (gs_schema small_storage))"
    by (simp add: small_storage_def small_schema_def field_names_def)
  have h3: "narrow_schema (gs_schema small_storage)"
    by (simp add: small_storage_def small_schema_def narrow_schema_def)
  have h4: "int_valued ?kw" by (simp add: int_valued_def)
  have p: "all_present (gs_schema small_storage) ?kw"
    by (simp add: all_present_def small_storage_def small_schema_def field_names_def)
  have r: "all_in_range (gs_schema small_storage) ?kw"
    by (simp add: all_in_range_def small_storage_def small_schema_def field_names_def
        in_offsets_def get_field_dtype_def field_map_def)
  have t: "total_size (gs_schema small_storage) = 5"
    by (simp add: total_size_def small_storage_def small_schema_def)
  have n: "gs_num_edges small_storage = 0" "length (gs_buffer small_storage) = 0"
    by (simp_all add: small_storage_def)
  show ?thesis
    using add_edge_range_check[OF h1 h2 h3 h4] h1 h2 h3 h4 p r t n by simp
qed

text \<open>
  C9 (as stated) fails: on the store with a signed 8-bit \<open>source\<close> and an unsigned 64-bit
  \<open>target\<close>, the value -1 is representable in int8 and 70000 in uint64, yet add_edge
  rejects each with a range error.
\<close>

theorem add_edge_dtype_bounds_counterexample:
  "dtype_min Int8 \<le> - 1 \<and> - 1 \<le> dtype_max Int8 \<and>
   add_edge demo_storage [(''source'', PyInt (- 1)), (''target'', PyInt 0)] =
     (Inl (OutOfRange ''source'' (PyInt (- 1)) Int8 127), demo_storage) \<and>
   dtype_min UInt64 \<le> 70000 \<and> 70000 \<le> dtype_max UInt64 \<and>
   add_edge demo_storage [(''source'', PyInt 1), (''target'', PyInt 70000)] =
     (Inl (OutOfRange ''target'' (PyInt 70000) UInt64 65535), demo_storage)"
  by (simp add: add_edge_def demo_storage_def demo_schema_def field_names_def in_offsets_def
      get_max_value_def get_field_dtype_def field_map_def)

text \<open>
  A float argument passes both checks and makes \<^verbatim>\<open>pack_into\<close> raise after the buffer has
  been extended: the call fails and the buffer has grown.
\<close>

lemma add_edge_float_grows_buffer:
  "add_edge small_storage [(''source'', PyFloat (1 / 2)), (''target'', PyInt 2), (''type'', PyInt 0)] =
     (Inl StructError, small_storage\<lparr>gs_buffer := [0, 0, 0, 0, 0]\<rparr>)"
  by (simp add: add_edge_def small_storage_def small_schema_def field_names_def in_offsets_def
      get_max_value_def get_field_dtype_def field_map_def pack_into_def total_size_def
      numeral_eq_Suc)


lemmas demo_simps = demo_db_def default_statuses_def st_todo_def st_in_progress_def st_review_def
  st_completed_def st_blocked_def st_cancelled_def owner_role_def developer_role_def olga_def ivan_def
  task_a_def task_b_def task_c_def dep_ab_def dep_bc_def act_ready_def act_complete_b_def act_notify_c_def

section \<open>Properties of authorisation and readiness\<close>

text \<open>
  C10. If the caller's role grants create_dependencies but not edit_any_task, the caller
  is not the creator of the source task and the source task has no assignee, then
  can_create_dependencies raises AttributeError instead of returning a verdict, and
  create_dependency fails with that AttributeError (not with PermissionError), leaving the
  store unchanged.
\<close>

theorem can_create_dependencies_unassigned_crash:
  assumes "get_user_role_in_project st u (t_project source_task) = Some role"
    and "role_can_create_dependencies role" and "\<not> role_can_edit_any_task role"
    and "t_creator source_task \<noteq> u_id u" and "t_assignee source_task = None"
  shows "can_create_dependencies st u source_task =
           Inl (AttributeError ''NoneType object has no attribute id'') \<and>
         create_dependency st source_task target_task u ty descr =
           (Inl (AttributeError ''NoneType object has no attribute id''), st)"
  using assms by (simp add: can_create_dependencies_def create_dependency_def)

theorem can_create_dependencies_unassigned_crash_witness:
  "get_user_role_in_project demo_db ivan (t_project task_a) = Some developer_role \<and>
   role_can_create_dependencies developer_role \<and> \<not> role_can_edit_any_task developer_role \<and>
   t_creator task_a \<noteq> u_id ivan \<and> t_assignee task_a = None \<and>
   create_dependency demo_db task_a task_b ivan ''simple'' None =
     (Inl (AttributeError ''NoneType object has no attribute id''), demo_db)"
proof -
  have r: "get_user_role_in_project demo_db ivan (t_project task_a) = Some developer_role"
    by (simp add: get_user_role_in_project_def demo_db_def ivan_def task_a_def)
  have f: "role_can_create_dependencies developer_role" "\<not> role_can_edit_any_task developer_role"
    by (simp_all add: developer_role_def)
  have c: "t_creator task_a \<noteq> u_id ivan" "t_assignee task_a = None"
    by (simp_all add: task_a_def ivan_def)
  show ?thesis
    using can_create_dependencies_unassigned_crash[OF r f c, of task_b "''simple''" None] r f c
    by simp
qed

lemma sources_completed_True:
  "sources_completed st ds = Inr True \<longleftrightarrow>
     (\<forall>d\<in>set ds. \<exists>s. get_task st (d_source_task d) = Inr s \<and> ts_name (t_status s) = ''completed'')"
  by (induction ds) (auto split: sum.splits)

lemma sources_completed_total:
  "\<forall>d\<in>set ds. \<exists>s. get_task st (d_source_task d) = Inr s \<Longrightarrow>
     \<exists>b. sources_completed st ds = Inr b"
  by (induction ds) (auto split: sum.splits)

text \<open>
  C1. check_task_readiness returns true exactly when the task's status is named todo and
  every incoming dependency has a source task whose status is named completed. A todo
  task without incoming dependencies is ready, a task in any other status is not, and the
  call returns a verdict whenever the source rows of the incoming dependencies exist.
\<close>

theorem check_task_readiness_iff:
  "(check_task_readiness st t = Inr True \<longleftrightarrow>
      ts_name (t_status t) = ''todo'' \<and>
      (\<forall>d\<in>set (incoming st t). \<exists>s. get_task st (d_source_task d) = Inr s \<and>
          ts_name (t_status s) = ''completed'')) \<and>
   (ts_name (t_status t) = ''todo'' \<and> incoming st t = [] \<longrightarrow> check_task_readiness st t = Inr True) \<and>
   (ts_name (t_status t) \<noteq> ''todo'' \<longrightarrow> check_task_readiness st t = Inr False) \<and>
   ((\<forall>d\<in>set (incoming st t). \<exists>s. get_task st (d_source_task d) = Inr s) \<longrightarrow>
      (\<exists>b. check_task_readiness st t = Inr b))"
proof -
  have a: "check_task_readiness st t = Inr True \<longleftrightarrow>
      ts_name (t_status t) = ''todo'' \<and>
      (\<forall>d\<in>set (incoming st t). \<exists>s. get_task st (d_source_task d) = Inr s \<and>
          ts_name (t_status s) = ''completed'')"
    by (auto simp: check_task_readiness_def sources_completed_True)
  have b: "ts_name (t_status t) = ''todo'' \<and> incoming st t = [] \<longrightarrow>
      check_task_readiness st t = Inr True"
    by (simp add: check_task_readiness_def)
  have c: "ts_name (t_status t) \<noteq> ''todo'' \<longrightarrow> check_task_readiness st t = Inr False"
    by (simp add: check_task_readiness_def)
  have d: "(\<forall>d\<in>set (incoming st t). \<exists>s. get_task st (d_source_task d) = Inr s) \<longrightarrow>
      (\<exists>b. check_task_readiness st t = Inr b)"
    using sources_completed_total[of "incoming st t" st]
    by (auto simp: check_task_readiness_def)
  show ?thesis using a b c d by blast
qed

theorem check_task_readiness_iff_witness:
  "ts_name (t_status task_b) = ''todo'' \<and>
   incoming demo_a_done task_b = [dep_ab] \<and>
   get_task demo_a_done (d_source_task dep_ab) = Inr (task_a\<lparr>t_status := st_completed\<rparr>) \<and>
   check_task_readiness demo_a_done task_b = Inr True \<and>
   check_task_readiness demo_db task_a = Inr True \<and>
   check_task_readiness demo_db task_b = Inr False \<and>
   check_task_readiness demo_a_done task_c = Inr False \<and>
   check_task_readiness demo_a_cancelled task_b = Inr False"
proof -
  have todo: "ts_name (t_status task_b) = ''todo''" by (simp add: task_b_def st_todo_def)
  have inc: "incoming demo_a_done task_b = [dep_ab]"
    by (simp add: incoming_def demo_a_done_def demo_db_def task_b_def dep_ab_def dep_bc_def)
  have src: "\<forall>d\<in>set (incoming demo_a_done task_b). \<exists>s. get_task demo_a_done (d_source_task d) = Inr s \<and>
       ts_name (t_status s) = ''completed''"
    by (simp add: inc) (simp add: get_task_def demo_a_done_def demo_db_def dep_ab_def task_a_def
        st_completed_def)
  have b: "check_task_readiness demo_a_done task_b = Inr True"
    using check_task_readiness_iff[of demo_a_done task_b] todo src by blast
  have a: "check_task_readiness demo_db task_a = Inr True"
    by (simp add: check_task_readiness_def incoming_def demo_simps)
  have b0: "check_task_readiness demo_db task_b = Inr False"
    by (simp add: check_task_readiness_def incoming_def get_task_def demo_simps)
  have c: "check_task_readiness demo_a_done task_c = Inr False"
    by (simp add: check_task_readiness_def incoming_def get_task_def demo_a_done_def demo_simps)
  have x: "check_task_readiness demo_a_cancelled task_b = Inr False"
    by (simp add: check_task_readiness_def incoming_def get_task_def demo_a_cancelled_def demo_simps)
  have g: "get_task demo_a_done (d_source_task dep_ab) = Inr (task_a\<lparr>t_status := st_completed\<rparr>)"
    by (simp add: get_task_def demo_a_done_def demo_db_def dep_ab_def task_a_def)
  show ?thesis using todo inc g a b b0 c x by simp
qed

section \<open>Properties of status changes\<close>

lemma find_unique_name:
  assumes "distinct (map ts_name ss)" and "s \<in> set ss"
  shows "find (\<lambda>x. ts_name x = ts_name s) ss = Some s"
  using assms by (induction ss) (auto simp: image_iff)

text \<open>
  C8. When the task's status is already the requested one (the status table has distinct
  names and holds the task's status row) and the actor may edit the task,
  change_task_status returns status_changed = false with no executed actions and leaves the
  whole store as it was: no event, no field change, no notification, no scheduled row.
\<close>

theorem change_task_status_same_status_noop:
  assumes "can_edit_task st actor t"
    and "ts_name (t_status t) = S"
    and "t_status t \<in> set (db_statuses st)"
    and "distinct (map ts_name (db_statuses st))"
  shows "change_task_status st t S actor =
           (Inr \<lparr>sc_task = t, sc_status_changed = False, sc_old_status = t_status t,
                 sc_new_status = t_status t, sc_actions_executed = []\<rparr>, st)"
proof -
  have "get_status_by_name st S = Some (t_status t)"
    using find_unique_name[OF assms(4) assms(3)] assms(2) by (simp add: get_status_by_name_def)
  then show ?thesis using assms(1) by (simp add: change_task_status_def Let_def)
qed

theorem change_task_status_same_status_noop_witness:
  "can_edit_task demo_db ivan task_b \<and> ts_name (t_status task_b) = ''todo'' \<and>
   t_status task_b \<in> set (db_statuses demo_db) \<and> distinct (map ts_name (db_statuses demo_db)) \<and>
   change_task_status demo_db task_b ''todo'' ivan =
     (Inr \<lparr>sc_task = task_b, sc_status_changed = False, sc_old_status = st_todo,
           sc_new_status = st_todo, sc_actions_executed = []\<rparr>, demo_db)"
proof -
  have h1: "can_edit_task demo_db ivan task_b"
    by (simp add: can_edit_task_def get_user_role_in_project_def demo_simps)
  have h2: "ts_name (t_status task_b) = ''todo''" by (simp add: task_b_def st_todo_def)
  have h3: "t_status task_b \<in> set (db_statuses demo_db)" by (simp add: demo_simps)
  have h4: "distinct (map ts_name (db_statuses demo_db))" by (simp add: demo_simps)
  have s: "t_status task_b = st_todo" by (simp add: task_b_def)
  show ?thesis
    using change_task_status_same_status_noop[OF h1 h2 h3 h4] h1 h2 h3 h4 s by simp
qed

text \<open>
  C5 (amended). For every actor who passes can_edit_task, whatever the role, and every
  existing status name, change_task_status succeeds: it reports the old and the new
  status, and when they differ the task carries the new status; unless the
  transition enters a final status from a non-final one, the store's task rows change
  only in that the task's row is replaced by the saved task. This holds for final to
  non-final transitions as for any other.
\<close>

theorem change_task_status_permits_any_transition:
  assumes "can_edit_task st actor t" and "get_status_by_name st n = Some new"
  shows "\<exists>res st'. change_task_status st t n actor = (Inr res, st') \<and>
           sc_old_status res = t_status t \<and> sc_new_status res = new \<and>
           sc_status_changed res = (ts_id (t_status t) \<noteq> ts_id new) \<and>
           (ts_id (t_status t) \<noteq> ts_id new \<longrightarrow>
              t_status (sc_task res) = new \<and>
              (\<not> (ts_is_final new \<and> \<not> ts_is_final (t_status t)) \<longrightarrow>
                 db_tasks st' = map (\<lambda>r. if t_id r = t_id t then sc_task res else r) (db_tasks st)))"
  using assms
  by (auto simp: change_task_status_def Let_def task_save_def event_log_def
      split: prod.splits sum.splits)

theorem change_task_status_permits_any_transition_witness:
  "can_edit_task demo_b_done ivan task_b_done \<and>
   get_status_by_name demo_b_done ''todo'' = Some st_todo \<and>
   ts_is_final (t_status task_b_done) \<and> \<not> ts_is_final st_todo \<and>
   (\<exists>res st'. change_task_status demo_b_done task_b_done ''todo'' ivan = (Inr res, st') \<and>
      sc_status_changed res \<and> t_status (sc_task res) = st_todo \<and>
      db_tasks st' = [task_a, sc_task res, task_c])"
proof -
  have h1: "can_edit_task demo_b_done ivan task_b_done"
    by (simp add: can_edit_task_def get_user_role_in_project_def demo_b_done_def task_b_done_def
        demo_simps)
  have h2: "get_status_by_name demo_b_done ''todo'' = Some st_todo"
    by (simp add: get_status_by_name_def demo_b_done_def demo_simps)
  have f: "ts_is_final (t_status task_b_done)" "\<not> ts_is_final st_todo"
    "ts_id (t_status task_b_done) \<noteq> ts_id st_todo"
    by (simp_all add: task_b_done_def demo_simps)
  have rows: "map (\<lambda>r. if t_id r = t_id task_b_done then x else r) (db_tasks demo_b_done) =
      [task_a, x, task_c]" for x
    by (simp add: demo_b_done_def task_b_done_def demo_simps)
  show ?thesis
    using change_task_status_permits_any_transition[OF h1 h2] h1 h2 f rows by auto
qed

text \<open>
  C5 (as stated) fails: Ivan, a developer without edit_any_task who is the assignee of the
  completed task B, moves B from completed (final) back to todo (non-final); the call
  succeeds and B's row holds todo.
\<close>

theorem reopen_without_edit_any_task_counterexample:
  "can_edit_task demo_b_done ivan task_b_done \<and>
   get_user_role_in_project demo_b_done ivan (t_project task_b_done) = Some developer_role \<and>
   \<not> role_can_edit_any_task developer_role \<and>
   ts_is_final (t_status task_b_done) \<and> \<not> ts_is_final st_todo \<and>
   fst (change_task_status demo_b_done task_b_done ''todo'' ivan) =
     Inr \<lparr>sc_task = task_b_done\<lparr>t_status := st_todo, t_updated_at := 1000\<rparr>,
          sc_status_changed = True, sc_old_status = st_completed, sc_new_status = st_todo,
          sc_actions_executed = []\<rparr> \<and>
   map (\<lambda>r. (t_name r, ts_name (t_status r)))
     (db_tasks (snd (change_task_status demo_b_done task_b_done ''todo'' ivan))) =
     [(''A'', ''todo''), (''B'', ''todo''), (''C'', ''todo'')]"
  by (simp add: change_task_status_def can_edit_task_def get_user_role_in_project_def
      get_status_by_name_def task_save_def event_log_def Let_def
      demo_b_done_def task_b_done_def demo_simps)

section \<open>Properties of dependency actions\<close>

text \<open>
  C6 (as stated) fails: with the template "Ready: {task_name}" on a notify_assignee action
  of the edge A to B, completing A calls the notifier once, for Ivan, with kind task_ready,
  and the payload's message is the template itself, not "Ready: B".
\<close>

theorem template_not_substituted_counterexample:
  "db_sent (snd (change_task_status demo_notify task_a ''completed'' olga)) =
     [\<lparr>n_user = 2, n_type = ''task_ready'',
       n_data = [(''task_id'', JInt 2), (''task_name'', JStr ''B''),
                 (''project_name'', JStr ''Demo''), (''message'', JStr ''Ready: {task_name}'')]\<rparr>] \<and>
   ''Ready: {task_name}'' \<noteq> ''Ready: B''"
  by (simp add: change_task_status_def can_edit_task_def get_user_role_in_project_def
      get_status_by_name_def task_save_def event_log_def Let_def handle_task_completed_def
      outgoing_def execute_dependency_actions_def active_actions_def execute_single_action_def
      notify_assignee_action_def bind_err_def get_dependency_def get_task_def get_user_def
      get_project_def send_task_notification_def notification_settings_dict_def settings_get_def
      task_data_def or_default_def check_task_readiness_def incoming_def
      demo_notify_def demo_simps)

text \<open>
  C6 (amended). For a notify_assignee action whose dependency, target task, assignee and
  project rows exist and whose assignee has not switched off dependency_ready, the
  notifier is called once with kind task_ready and a payload of the target's id and name,
  the project's name and a message. The message is the action's message_template
  unchanged, with no placeholder replaced; a null or empty template is replaced by the
  default text followed by the target's name.
\<close>

theorem notify_assignee_message_verbatim:
  assumes "a_action_type action = ''notify_assignee''"
    and "get_dependency st (a_dependency action) = Inr dep"
    and "get_task st (d_target_task dep) = Inr target"
    and "t_assignee target = Some uid"
    and "get_user st uid = Inr assignee"
    and "get_project st (t_project target) = Inr proj"
    and "settings_get (notification_settings_dict assignee) ''dependency_ready'' True"
  shows "r_status (fst (execute_single_action st action trigger triggered_by)) = ''executed'' \<and>
         db_sent (snd (execute_single_action st action trigger triggered_by)) =
           db_sent st @
             [\<lparr>n_user = u_id assignee, n_type = ''task_ready'',
               n_data = [(''task_id'', JInt (int (t_id target))), (''task_name'', JStr (t_name target)),
                         (''project_name'', JStr (p_name proj)),
                         (''message'', JStr (case a_message_template action of
                              None \<Rightarrow> msg_task_ready @ t_name target
                            | Some s \<Rightarrow> if s = [] then msg_task_ready @ t_name target else s))]\<rparr>]"
  using assms
  by (simp add: execute_single_action_def notify_assignee_action_def bind_err_def
      send_task_notification_def task_data_def or_default_def Let_def)

theorem notify_assignee_message_verbatim_witness:
  "a_action_type act_ready = ''notify_assignee'' \<and>
   get_dependency demo_notify (a_dependency act_ready) = Inr dep_ab \<and>
   get_task demo_notify (d_target_task dep_ab) = Inr task_b \<and>
   t_assignee task_b = Some 2 \<and> get_user demo_notify 2 = Inr ivan \<and>
   get_project demo_notify (t_project task_b) = Inr \<lparr>p_id = 1, p_name = ''Demo''\<rparr> \<and>
   settings_get (notification_settings_dict ivan) ''dependency_ready'' True \<and>
   db_sent (snd (execute_single_action demo_notify act_ready ''task_completed'' olga)) =
     [\<lparr>n_user = 2, n_type = ''task_ready'',
       n_data = [(''task_id'', JInt 2), (''task_name'', JStr ''B''),
                 (''project_name'', JStr ''Demo''), (''message'', JStr ''Ready: {task_name}'')]\<rparr>]"
proof -
  have h1: "a_action_type act_ready = ''notify_assignee''" by (simp add: act_ready_def)
  have h2: "get_dependency demo_notify (a_dependency act_ready) = Inr dep_ab"
    by (simp add: get_dependency_def demo_notify_def demo_simps)
  have h3: "get_task demo_notify (d_target_task dep_ab) = Inr task_b"
    by (simp add: get_task_def demo_notify_def demo_simps)
  have h4: "t_assignee task_b = Some 2" by (simp add: task_b_def)
  have h5: "get_user demo_notify 2 = Inr ivan"
    by (simp add: get_user_def demo_notify_def demo_simps)
  have h6: "get_project demo_notify (t_project task_b) = Inr \<lparr>p_id = 1, p_name = ''Demo''\<rparr>"
    by (simp add: get_project_def demo_notify_def demo_simps)
  have h7: "settings_get (notification_settings_dict ivan) ''dependency_ready'' True"
    by (simp add: settings_get_def notification_settings_dict_def ivan_def)
  have v: "db_sent demo_notify = []" "u_id ivan = 2" "t_id task_b = 2" "t_name task_b = ''B''"
    "a_message_template act_ready = Some ''Ready: {task_name}''"
    by (simp_all add: demo_notify_def demo_simps)
  show ?thesis
    using notify_assignee_message_verbatim[OF h1 h2 h3 h4 h5 h6 h7, of "''task_completed''" olga]
      h1 h2 h3 h4 h5 h6 h7 v
    by simp
qed

text \<open>
  C4 (as stated) fails: A to B carries a change_status action with target status
  completed, B to C an active notify_assignee action. Completing A moves B from todo to
  completed, a final status, but B's outgoing action is not evaluated: the only executed
  action is the change_status one, and the notifier is never called.
\<close>

theorem change_status_no_cascade_counterexample:
  "outgoing demo_cascade task_b = [dep_bc] \<and>
   active_actions demo_cascade dep_bc = [act_notify_c] \<and>
   \<not> ts_is_final (t_status task_b) \<and> ts_is_final st_completed \<and>
   (\<exists>res. fst (change_task_status demo_cascade task_a ''completed'' olga) = Inr res \<and>
      map r_action_id (sc_actions_executed res) = [2] \<and>
      map r_status (sc_actions_executed res) = [''executed'']) \<and>
   map (\<lambda>r. (t_name r, ts_name (t_status r)))
     (db_tasks (snd (change_task_status demo_cascade task_a ''completed'' olga))) =
     [(''A'', ''completed''), (''B'', ''completed''), (''C'', ''todo'')] \<and>
   db_sent (snd (change_task_status demo_cascade task_a ''completed'' olga)) = [] \<and>
   db_scheduled (snd (change_task_status demo_cascade task_a ''completed'' olga)) = []"
  by (simp add: change_task_status_def can_edit_task_def get_user_role_in_project_def
      get_status_by_name_def task_save_def event_log_def Let_def handle_task_completed_def
      outgoing_def execute_dependency_actions_def active_actions_def execute_single_action_def
      change_status_action_def bind_err_def get_dependency_def get_task_def
      check_task_readiness_def incoming_def str_or_none_def
      demo_cascade_def demo_simps)

text \<open>
  C4 (amended). When an active change_status action with a target status fires and its
  dependency and target task rows exist, the target's status is written directly: the
  target is saved with the target status, one status_changed event is logged for the
  target with the triggering user as its user, and the result reports the new status. No
  permission is checked and nothing else happens: no notification is sent, no scheduled
  row is created, and no other task row, dependency or action changes; the target's own
  outgoing actions are not evaluated, whatever status it enters.
\<close>

theorem change_status_action_direct_write:
  assumes "a_action_type action = ''change_status''"
    and "a_target_status action = Some s"
    and "get_dependency st (a_dependency action) = Inr dep"
    and "get_task st (d_target_task dep) = Inr target"
  shows "(let saved = fst (task_save st (target\<lparr>t_status := s\<rparr>));
              result = fst (execute_single_action st action trigger triggered_by);
              st' = snd (execute_single_action st action trigger triggered_by)
          in r_status result = ''executed'' \<and> r_new_status result = Some (ts_name s) \<and>
             t_status saved = s \<and>
             db_tasks st' = map (\<lambda>r. if t_id r = t_id target then saved else r) (db_tasks st) \<and>
             db_events st' = db_events st @
               [\<lparr>e_project = t_project target, e_task = t_id target, e_user = u_id triggered_by,
                 e_event_type = ''status_changed'',
                 e_old_value = str_or_none (Some (ts_name (t_status target))),
                 e_new_value = str_or_none (Some (ts_name s)),
                 e_metadata = Some [(''triggered_by_action'', JInt (int (a_id action)))],
                 e_created_at = db_now st\<rparr>] \<and>
             db_sent st' = db_sent st \<and> db_scheduled st' = db_scheduled st \<and>
             db_dependencies st' = db_dependencies st \<and> db_actions st' = db_actions st)"
  using assms
  by (simp add: execute_single_action_def change_status_action_def bind_err_def
      task_save_def event_log_def Let_def)

theorem change_status_action_direct_write_witness:
  "a_action_type act_complete_b = ''change_status'' \<and>
   a_target_status act_complete_b = Some st_completed \<and>
   get_dependency demo_cascade (a_dependency act_complete_b) = Inr dep_ab \<and>
   get_task demo_cascade (d_target_task dep_ab) = Inr task_b \<and>
   db_sent (snd (execute_single_action demo_cascade act_complete_b ''task_completed'' olga)) = [] \<and>
   db_scheduled (snd (execute_single_action demo_cascade act_complete_b ''task_completed'' olga)) = [] \<and>
   map e_user (db_events (snd (execute_single_action demo_cascade act_complete_b
       ''task_completed'' olga))) = [1] \<and>
   r_new_status (fst (execute_single_action demo_cascade act_complete_b ''task_completed'' olga)) =
     Some ''completed''"
proof -
  have h1: "a_action_type act_complete_b = ''change_status''" by (simp add: act_complete_b_def)
  have h2: "a_target_status act_complete_b = Some st_completed" by (simp add: act_complete_b_def)
  have h3: "get_dependency demo_cascade (a_dependency act_complete_b) = Inr dep_ab"
    by (simp add: get_dependency_def demo_cascade_def demo_simps)
  have h4: "get_task demo_cascade (d_target_task dep_ab) = Inr task_b"
    by (simp add: get_task_def demo_cascade_def demo_simps)
  have v: "db_sent demo_cascade = []" "db_scheduled demo_cascade = []" "db_events demo_cascade = []"
    "u_id olga = 1" "ts_name st_completed = ''completed''"
    by (simp_all add: demo_cascade_def demo_simps)
  show ?thesis
    using change_status_action_direct_write[OF h1 h2 h3 h4, of "''task_completed''" olga]
      h1 h2 h3 h4 v
    by (simp add: Let_def)
qed

section \<open>Properties of the cycle check\<close>






section \<open>What actions leave unchanged\<close>









section \<open>Properties of dependency creation\<close>





lemma create_dependency_adds_row:
  "map (\<lambda>d. (d_source_task d, d_target_task d))
     (db_dependencies (snd (create_dependency demo_db task_a task_c olga ''simple'' None))) =
     [(1, 2), (2, 3), (1, 3)]"
  by (simp add: create_dependency_def can_create_dependencies_def get_user_role_in_project_def
      would_create_cycle_def dfs.simps project_deps_from_def event_log_def Let_def next_id_def
      demo_simps)

section \<open>Properties of the completion hand-off\<close>












section \<open>Properties of the scheduler tick\<close>

















end
